theory Spec2Isabelle
  imports Main
begin

section \<open>The OpenAPI autogeneration builder of Dactyl\<close>

text \<open>
  The development embeds the class \<open>OasAutogenBuilder\<close>: its constructor, its three
  setters and its method \<open>build\<close>, which walks the controllers of an application and
  assembles an OpenAPI document from their metadata.

  JavaScript objects used as dictionaries (\<open>paths\<close>, the method table of a path, the
  \<open>responses\<close> of an operation) are maps on their own string keys; key order is not
  modelled, and keys that name members of \<open>Object.prototype\<close> are outside the model.
  \<open>Map\<close> objects (\<open>defaultResponseCodes\<close>, \<open>argTypes\<close>) are maps as well, arrays are
  lists, and \<open>undefined\<close> is \<open>None\<close>.
\<close>

subsection \<open>Metadata consumed by the builder\<close>

text \<open>
  Modelled from the spec: the enumeration \<open>HttpMethod\<close> is declared in \<open>types.ts\<close>,
  which is not among the sources. The spec lists GET, POST, PUT, DELETE, PATCH and leaves
  the enumeration open; \<open>OTHER_METHOD\<close> stands for any further member.
\<close>

datatype HttpMethod = GET | POST | PUT | DELETE | PATCH | OTHER_METHOD string

text \<open>
  Modelled from the spec: the enumeration \<open>ArgsType\<close> is declared in \<open>types.ts\<close> as
  well. The spec lists PARAM, QUERY, BODY, CONTEXT, REQUEST, RESPONSE, HEADER and leaves
  the enumeration open; \<open>OTHER_ARG\<close> stands for any further member.
\<close>

datatype ArgsType =
  PARAM | QUERY | BODY | CONTEXT | REQUEST | RESPONSE | HEADER | OTHER_ARG string

text \<open>
  Modelled from the spec: the shapes \<open>DocDefinition\<close>, \<open>RouteDefinition\<close>,
  \<open>RouteArgument\<close> and \<open>ControllerMetadata\<close> of \<open>types.ts\<close>, with the fields that
  \<open>build\<close> reads. A route identifier (\<open>methodName\<close>, \<open>docFor\<close>, \<open>argFor\<close>) is a string.
  \<open>routes\<close> is the sequence of routes in the order in which \<open>routes.entries()\<close> yields
  them. A prefix that is \<open>undefined\<close> or \<open>null\<close> is \<open>None\<close>.
\<close>

record Model =
  description :: string

record DocDefinition =
  docFor :: string
  model :: Model

record RouteDefinition =
  methodName :: string
  path :: string
  requestMethod :: HttpMethod

record RouteArgument =
  argFor :: string
  type :: ArgsType
  key :: string

record ControllerMetadata =
  prefix :: "string option"
  routes :: "RouteDefinition list"
  docs :: "DocDefinition list"
  defaultResponseCodes :: "string \<rightharpoonup> int"
  args :: "RouteArgument list"
  argTypes :: "string \<rightharpoonup> string list"

subsection \<open>The document produced\<close>

text \<open>
  After the \<open>map\<close> of lines 120 to 127 the \<open>type\<close> of an argument is either the string
  literal \<open>"path"\<close> or the argument's own \<open>ArgsType\<close> label; the array is typed \<open>any\<close>
  in the source.
\<close>

datatype TypeLabel = Literal string | Label ArgsType

record MappedArgument =
  argFor :: string
  type :: TypeLabel
  key :: string

record Schema =
  type :: "string option"

record Parameter =
  name :: string
  in' :: TypeLabel
  schema :: Schema

record ResponseObject =
  description :: string

record Operation =
  description :: string
  responses :: "string \<rightharpoonup> ResponseObject"
  parameters :: "Parameter list"

type_synonym OasPathsRoot = "string \<rightharpoonup> (HttpMethod \<rightharpoonup> Operation)"

record Info =
  title :: string
  version :: string
  description :: string

record Components =
  schemas :: "string \<rightharpoonup> unit"
  responses :: "string \<rightharpoonup> unit"
  parameters :: "string \<rightharpoonup> unit"
  examples :: "string \<rightharpoonup> unit"
  requestBodies :: "string \<rightharpoonup> unit"
  headers :: "string \<rightharpoonup> unit"
  securitySchemes :: "string \<rightharpoonup> unit"
  links :: "string \<rightharpoonup> unit"
  callbacks :: "string \<rightharpoonup> unit"

record OpenApiSpecRoot =
  openapi :: string
  info :: Info
  paths :: OasPathsRoot
  components :: Components

subsection \<open>The builder: static fields, constructor and setters\<close>

text \<open>
  The controllers of an application are values of an arbitrary type \<open>'c\<close> (the source
  has \<open>Newable<any>\<close>); \<open>ApplicationConfig\<close> is what \<open>app.getAppConfig()\<close> returns.
\<close>

record 'c ApplicationConfig =
  controllers :: "'c list"

record 'c OasAutogenBuilder =
  appConfig :: "'c ApplicationConfig"
  title :: string
  desc :: string
  applicationVersion :: string

definition OAS_VERSION :: string where
  "OAS_VERSION = ''3.0.0''"

definition APP_VERSION :: string where
  "APP_VERSION = ''1.0.0''"

definition DEFAULT_TITLE :: string where
  "DEFAULT_TITLE = ''OpenAPI Spec '' @ OAS_VERSION @ '' compliant documentation''"

definition DEFAULT_DESC :: string where
  "DEFAULT_DESC = ''Autogenerated OAS documentation by Dactyl''"

definition constructor :: "'c ApplicationConfig \<Rightarrow> 'c OasAutogenBuilder" where
  "constructor cfg =
     \<lparr>appConfig = cfg, title = DEFAULT_TITLE, desc = DEFAULT_DESC,
      applicationVersion = APP_VERSION\<rparr>"

definition addTitle :: "string \<Rightarrow> 'c OasAutogenBuilder \<Rightarrow> 'c OasAutogenBuilder" where
  "addTitle t this = this\<lparr>title := t\<rparr>"

definition addDesc :: "string \<Rightarrow> 'c OasAutogenBuilder \<Rightarrow> 'c OasAutogenBuilder" where
  "addDesc d this = this\<lparr>desc := d\<rparr>"

definition addApplicationVersion ::
  "string \<Rightarrow> 'c OasAutogenBuilder \<Rightarrow> 'c OasAutogenBuilder" where
  "addApplicationVersion v this = this\<lparr>applicationVersion := v\<rparr>"

subsection \<open>The body of the loop over routes\<close>

text \<open>
  A computed property key \<open>[code]\<close> is the number rendered as a string: for an integer
  of at most 21 digits, its decimal digits after the sign. Response codes are integers.
\<close>

fun decimal :: "nat \<Rightarrow> string" where
  "decimal n =
     (if n < 10 then [''0123456789'' ! n]
      else decimal (n div 10) @ [''0123456789'' ! (n mod 10)])"

declare decimal.simps [simp del]

definition propertyKey :: "int \<Rightarrow> string" where
  "propertyKey c = (if c < 0 then CHR ''-'' # decimal (nat (- c)) else decimal (nat c))"

text \<open>Line 106: the first documentation entry for the route, if any.\<close>

definition docDef :: "ControllerMetadata \<Rightarrow> RouteDefinition \<Rightarrow> DocDefinition option" where
  "docDef meta routeDef = find (\<lambda>d. docFor d = methodName routeDef) (docs meta)"

text \<open>Lines 112 and 113: the explicit code, else 201 for POST, else 200.\<close>

definition code :: "ControllerMetadata \<Rightarrow> RouteDefinition \<Rightarrow> int" where
  "code meta routeDef =
     (case defaultResponseCodes meta (methodName routeDef) of
        Some c \<Rightarrow> c
      | None \<Rightarrow> if requestMethod routeDef = POST then 201 else 200)"

text \<open>Lines 115 to 127: the filter on the arguments, then the relabelling of PARAM.\<close>

definition filteredArgs :: "ControllerMetadata \<Rightarrow> RouteDefinition \<Rightarrow> MappedArgument list" where
  "filteredArgs meta routeDef =
     map (\<lambda>arg.
            if RouteArgument.type arg = PARAM
            then \<lparr>argFor = RouteArgument.argFor arg, MappedArgument.type = Literal ''path'',
                  key = RouteArgument.key arg\<rparr>
            else \<lparr>argFor = RouteArgument.argFor arg,
                  MappedArgument.type = Label (RouteArgument.type arg),
                  key = RouteArgument.key arg\<rparr>)
       (filter (\<lambda>arg.
            RouteArgument.argFor arg = methodName routeDef \<and>
            RouteArgument.type arg \<noteq> BODY \<and> RouteArgument.type arg \<noteq> CONTEXT \<and>
            RouteArgument.type arg \<noteq> REQUEST \<and> RouteArgument.type arg \<noteq> RESPONSE)
          (args meta))"

text \<open>Lines 129 and 130: the type labels of the route, the empty array when absent.\<close>

definition filteredArgTypes :: "ControllerMetadata \<Rightarrow> RouteDefinition \<Rightarrow> string list" where
  "filteredArgTypes meta routeDef =
     (case argTypes meta (methodName routeDef) of Some tys \<Rightarrow> tys | None \<Rightarrow> [])"

text \<open>Line 133.\<close>

definition requestPath :: "string \<Rightarrow> RouteDefinition \<Rightarrow> string" where
  "requestPath pfx routeDef = pfx @ path routeDef"

text \<open>Reading an array at an index: \<open>undefined\<close> beyond its length.\<close>

definition at_index :: "'a list \<Rightarrow> nat \<Rightarrow> 'a option" where
  "at_index xs i = (if i < length xs then Some (xs ! i) else None)"

text \<open>Lines 139 to 155: the operation stored for the route.\<close>

definition operation :: "ControllerMetadata \<Rightarrow> RouteDefinition \<Rightarrow> Operation" where
  "operation meta routeDef =
     \<lparr>Operation.description =
        (case docDef meta routeDef of
           Some d \<Rightarrow> Model.description (model d)
         | None \<Rightarrow> methodName routeDef),
      Operation.responses =
        [propertyKey (code meta routeDef) \<mapsto> \<lparr>ResponseObject.description = ''''\<rparr>],
      Operation.parameters =
        map (\<lambda>(arg, index).
               \<lparr>name = key arg, in' = MappedArgument.type arg,
                schema = \<lparr>type = at_index (filteredArgTypes meta routeDef) index\<rparr>\<rparr>)
          (zip (filteredArgs meta routeDef)
             [0 ..< length (filteredArgs meta routeDef)])\<rparr>"

text \<open>
  Lines 104 to 156, one iteration: the path gets an empty method table if it has none
  (line 136), then the method's entry is written (line 139).
\<close>

definition route_body ::
  "ControllerMetadata \<Rightarrow> string \<Rightarrow> OasPathsRoot \<Rightarrow> RouteDefinition \<Rightarrow> OasPathsRoot" where
  "route_body meta pfx ps routeDef =
     (let ps' = (case ps (requestPath pfx routeDef) of
                   None \<Rightarrow> ps(requestPath pfx routeDef \<mapsto> Map.empty)
                 | Some _ \<Rightarrow> ps)
      in ps'(requestPath pfx routeDef \<mapsto>
           (case ps' (requestPath pfx routeDef) of
              None \<Rightarrow> Map.empty
            | Some tbl \<Rightarrow> tbl)
           (requestMethod routeDef \<mapsto> operation meta routeDef)))"

fun routes_loop ::
  "ControllerMetadata \<Rightarrow> string \<Rightarrow> OasPathsRoot \<Rightarrow> RouteDefinition list \<Rightarrow> OasPathsRoot" where
  "routes_loop meta pfx ps [] = ps"
| "routes_loop meta pfx ps (routeDef # rest) =
     routes_loop meta pfx (route_body meta pfx ps routeDef) rest"

subsection \<open>The loop over controllers and \<open>build\<close>\<close>

text \<open>
  \<open>OAS_ROOT.paths\<close> starts as the object literal of line 79 and is set to the local
  object \<open>paths\<close> at line 157, at the end of each iteration that was not skipped; from
  then on it is an alias of \<open>paths\<close> and sees the later writes too.
\<close>

datatype PathsRef = LiteralObject | PathsObject

text \<open>
  \<open>getControllerOwnMeta\<close> is imported from \<open>metadata.ts\<close>, which is not among the
  sources: the lookup is a parameter. Line 99 skips the controller when the lookup gives
  nothing or the prefix is falsy, that is absent or the empty string. Otherwise the
  routes are walked and line 157 makes \<open>OAS_ROOT.paths\<close> the object \<open>paths\<close>.
\<close>

definition controller_body ::
  "('c \<Rightarrow> ControllerMetadata option) \<Rightarrow> OasPathsRoot \<times> PathsRef \<Rightarrow> 'c \<Rightarrow>
     OasPathsRoot \<times> PathsRef" where
  "controller_body getControllerOwnMeta st controller =
     (case getControllerOwnMeta controller of
        None \<Rightarrow> st
      | Some meta \<Rightarrow>
          (case prefix meta of
             None \<Rightarrow> st
           | Some pfx \<Rightarrow>
               if pfx = '''' then st
               else (routes_loop meta pfx (fst st) (routes meta), PathsObject)))"

fun controllers_loop ::
  "('c \<Rightarrow> ControllerMetadata option) \<Rightarrow> OasPathsRoot \<times> PathsRef \<Rightarrow> 'c list \<Rightarrow>
     OasPathsRoot \<times> PathsRef" where
  "controllers_loop getControllerOwnMeta st [] = st"
| "controllers_loop getControllerOwnMeta st (controller # rest) =
     controllers_loop getControllerOwnMeta
       (controller_body getControllerOwnMeta st controller) rest"

definition emptyComponents :: Components where
  "emptyComponents =
     \<lparr>schemas = Map.empty, responses = Map.empty, parameters = Map.empty,
      examples = Map.empty, requestBodies = Map.empty, headers = Map.empty,
      securitySchemes = Map.empty, links = Map.empty, callbacks = Map.empty\<rparr>"

text \<open>
  \<open>build\<close> returns nothing and prints the document; the model returns the document
  that is printed, and the builder as \<open>build\<close> leaves it.
\<close>

definition build ::
  "('c \<Rightarrow> ControllerMetadata option) \<Rightarrow> 'c OasAutogenBuilder \<Rightarrow> string \<Rightarrow>
     OpenApiSpecRoot \<times> 'c OasAutogenBuilder" where
  "build getControllerOwnMeta this path' =
     (let OAS_ROOT =
            \<lparr>openapi = OAS_VERSION,
             info = \<lparr>Info.title = title this, version = applicationVersion this,
                     description = desc this\<rparr>,
             paths = Map.empty,
             components = emptyComponents\<rparr>;
          (ps, ref) =
            controllers_loop getControllerOwnMeta (Map.empty, LiteralObject)
              (controllers (appConfig this))
      in (OAS_ROOT\<lparr>paths := (case ref of LiteralObject \<Rightarrow> Map.empty | PathsObject \<Rightarrow> ps)\<rparr>,
          this))"

subsection \<open>Reading the document\<close>


text \<open>
  The arguments of a route that the filter of lines 115 to 119 keeps, as the spec words
  it: bound to the route, and of no type among BODY, CONTEXT, REQUEST, RESPONSE.
\<close>

definition retained :: "ControllerMetadata \<Rightarrow> RouteDefinition \<Rightarrow> RouteArgument list" where
  "retained meta routeDef =
     filter (\<lambda>a. RouteArgument.argFor a = methodName routeDef \<and>
                 RouteArgument.type a \<notin> {BODY, CONTEXT, REQUEST, RESPONSE})
       (args meta)"





subsection \<open>A sample application\<close>

text \<open>
  A controller of users with three routes: one documented GET with a path parameter,
  a query, a header and a context argument but only two type labels; one POST without
  an explicit code; one POST with the explicit code 202.
\<close>

definition getUser :: RouteDefinition where
  "getUser = \<lparr>methodName = ''getUser'', path = ''/:id'', requestMethod = GET\<rparr>"

definition createUser :: RouteDefinition where
  "createUser = \<lparr>methodName = ''createUser'', path = '''', requestMethod = POST\<rparr>"

definition importUsers :: RouteDefinition where
  "importUsers = \<lparr>methodName = ''importUsers'', path = ''/import'', requestMethod = POST\<rparr>"

definition users :: ControllerMetadata where
  "users =
     \<lparr>prefix = Some ''/users'',
      routes = [getUser, createUser, importUsers],
      docs = [\<lparr>docFor = ''getUser'', model = \<lparr>Model.description = ''Fetch one user''\<rparr>\<rparr>],
      defaultResponseCodes = [''importUsers'' \<mapsto> 202],
      args =
        [\<lparr>RouteArgument.argFor = ''getUser'', RouteArgument.type = PARAM,
          RouteArgument.key = ''id''\<rparr>,
         \<lparr>RouteArgument.argFor = ''getUser'', RouteArgument.type = CONTEXT,
          RouteArgument.key = ''ctx''\<rparr>,
         \<lparr>RouteArgument.argFor = ''createUser'', RouteArgument.type = BODY,
          RouteArgument.key = ''body''\<rparr>,
         \<lparr>RouteArgument.argFor = ''getUser'', RouteArgument.type = QUERY,
          RouteArgument.key = ''verbose''\<rparr>,
         \<lparr>RouteArgument.argFor = ''createUser'', RouteArgument.type = HEADER,
          RouteArgument.key = ''x-tenant''\<rparr>,
         \<lparr>RouteArgument.argFor = ''getUser'', RouteArgument.type = HEADER,
          RouteArgument.key = ''x-trace''\<rparr>],
      argTypes = [''getUser'' \<mapsto> [''string'', ''boolean'']]\<rparr>"

text \<open>
  Two controllers that declare the same full path \<open>/ping\<close> with the method GET, split
  differently between prefix and route path, and two controllers that line 99 skips.
\<close>

definition pingFirst :: ControllerMetadata where
  "pingFirst =
     \<lparr>prefix = Some ''/ping'',
      routes = [\<lparr>methodName = ''first'', path = '''', requestMethod = GET\<rparr>],
      docs = [], defaultResponseCodes = Map.empty, args = [], argTypes = Map.empty\<rparr>"

definition pingSecond :: ControllerMetadata where
  "pingSecond =
     \<lparr>prefix = Some ''/'',
      routes = [\<lparr>methodName = ''second'', path = ''ping'', requestMethod = GET\<rparr>],
      docs = [], defaultResponseCodes = Map.empty, args = [], argTypes = Map.empty\<rparr>"

definition noPrefix :: ControllerMetadata where
  "noPrefix = users\<lparr>prefix := None\<rparr>"

definition emptyPrefix :: ControllerMetadata where
  "emptyPrefix = users\<lparr>prefix := Some ''''\<rparr>"

text \<open>
  The metadata lookup of the sample: controllers are named by strings, and a name
  without an entry (such as \<open>Service\<close>) is a class without metadata.
\<close>

definition sampleMeta :: "string \<Rightarrow> ControllerMetadata option" where
  "sampleMeta =
     [''Users'' \<mapsto> users, ''PingFirst'' \<mapsto> pingFirst, ''PingSecond'' \<mapsto> pingSecond,
      ''NoPrefix'' \<mapsto> noPrefix, ''EmptyPrefix'' \<mapsto> emptyPrefix]"

definition sampleBuilder :: "string list \<Rightarrow> string OasAutogenBuilder" where
  "sampleBuilder cs = constructor \<lparr>controllers = cs\<rparr>"

subsection \<open>Configuring the builder\<close>

text \<open>
  A builder is configured by a sequence of calls of its setters after its construction.
  For each header field the spec promises the configured override or else the default:
  \<open>latest\<close> is the last value of a sequence, or the default when there is none.
\<close>

datatype Setter = AddTitle string | AddDesc string | AddApplicationVersion string

fun call :: "'c OasAutogenBuilder \<Rightarrow> Setter \<Rightarrow> 'c OasAutogenBuilder" where
  "call this (AddTitle t) = addTitle t this"
| "call this (AddDesc d) = addDesc d this"
| "call this (AddApplicationVersion v) = addApplicationVersion v this"

definition configured :: "'c ApplicationConfig \<Rightarrow> Setter list \<Rightarrow> 'c OasAutogenBuilder" where
  "configured cfg calls = foldl call (constructor cfg) calls"

fun latest :: "string \<Rightarrow> string list \<Rightarrow> string" where
  "latest d [] = d"
| "latest d (x # xs) = latest x xs"

fun titles :: "Setter list \<Rightarrow> string list" where
  "titles [] = []"
| "titles (AddTitle t # cs) = t # titles cs"
| "titles (_ # cs) = titles cs"

fun descs :: "Setter list \<Rightarrow> string list" where
  "descs [] = []"
| "descs (AddDesc d # cs) = d # descs cs"
| "descs (_ # cs) = descs cs"

fun applicationVersions :: "Setter list \<Rightarrow> string list" where
  "applicationVersions [] = []"
| "applicationVersions (AddApplicationVersion v # cs) = v # applicationVersions cs"
| "applicationVersions (_ # cs) = applicationVersions cs"

section \<open>Properties\<close>

subsection \<open>The operation of a route\<close>

lemma filteredArgs_retained:
  "filteredArgs meta r =
     map (\<lambda>a. \<lparr>argFor = RouteArgument.argFor a,
                MappedArgument.type =
                  (if RouteArgument.type a = PARAM then Literal ''path''
                   else Label (RouteArgument.type a)),
                key = RouteArgument.key a\<rparr>)
       (retained meta r)"
  by (simp add: filteredArgs_def retained_def if_distrib cong: if_cong)

lemma length_parameters:
  "length (Operation.parameters (operation meta r)) = length (retained meta r)"
  by (simp add: operation_def filteredArgs_retained)

lemma nth_parameters:
  assumes "i < length (retained meta r)"
  shows "Operation.parameters (operation meta r) ! i =
           \<lparr>name = RouteArgument.key (retained meta r ! i),
            in' = (if RouteArgument.type (retained meta r ! i) = PARAM then Literal ''path''
                   else Label (RouteArgument.type (retained meta r ! i))),
            schema = \<lparr>type = at_index (filteredArgTypes meta r) i\<rparr>\<rparr>"
  using assms by (simp add: operation_def filteredArgs_retained)

lemma map_name_parameters:
  "map name (Operation.parameters (operation meta r)) =
     map RouteArgument.key (retained meta r)"
  by (rule nth_equalityI) (simp_all add: length_parameters nth_parameters)

lemma map_in_parameters:
  "map in' (Operation.parameters (operation meta r)) =
     map (\<lambda>a. if RouteArgument.type a = PARAM then Literal ''path''
               else Label (RouteArgument.type a)) (retained meta r)"
  by (rule nth_equalityI) (simp_all add: length_parameters nth_parameters)

text \<open>
  C1: the only key of the \<open>responses\<close> of a route's operation is the explicit code of
  \<open>defaultResponseCodes\<close> for the route's \<open>methodName\<close> when there is one, else 201
  when the route's \<open>requestMethod\<close> is POST, else 200.
\<close>

theorem default_response_code:
  "(defaultResponseCodes meta (methodName routeDef) = Some c \<longrightarrow>
      Operation.responses (operation meta routeDef) =
        [propertyKey c \<mapsto> \<lparr>ResponseObject.description = ''''\<rparr>]) \<and>
   (defaultResponseCodes meta (methodName routeDef) = None \<and> requestMethod routeDef = POST \<longrightarrow>
      Operation.responses (operation meta routeDef) =
        [''201'' \<mapsto> \<lparr>ResponseObject.description = ''''\<rparr>]) \<and>
   (defaultResponseCodes meta (methodName routeDef) = None \<and> requestMethod routeDef \<noteq> POST \<longrightarrow>
      Operation.responses (operation meta routeDef) =
        [''200'' \<mapsto> \<lparr>ResponseObject.description = ''''\<rparr>])"
  by (simp add: operation_def code_def propertyKey_def decimal.simps)

text \<open>
  In the sample, the POST with the explicit code 202 answers 202, the other POST 201 and
  the GET 200.
\<close>

theorem default_response_code_witness:
  "Operation.responses (operation users importUsers) =
     [''202'' \<mapsto> \<lparr>ResponseObject.description = ''''\<rparr>] \<and>
   Operation.responses (operation users createUser) =
     [''201'' \<mapsto> \<lparr>ResponseObject.description = ''''\<rparr>] \<and>
   Operation.responses (operation users getUser) =
     [''200'' \<mapsto> \<lparr>ResponseObject.description = ''''\<rparr>]"
proof -
  have explicit: "defaultResponseCodes users (methodName importUsers) = Some 202"
    by (simp add: users_def importUsers_def)
  have post: "defaultResponseCodes users (methodName createUser) = None \<and>
      requestMethod createUser = POST"
    by (simp add: users_def createUser_def)
  have other: "defaultResponseCodes users (methodName getUser) = None \<and>
      requestMethod getUser \<noteq> POST"
    by (simp add: users_def getUser_def)
  have key: "propertyKey 202 = ''202''"
    by (simp add: propertyKey_def decimal.simps)
  from explicit post other key
    default_response_code [of users importUsers 202]
    default_response_code [of users createUser]
    default_response_code [of users getUser]
  show ?thesis by simp
qed

text \<open>
  C2: the parameters of a route's operation are, in declaration order, the arguments
  whose \<open>argFor\<close> is the route's \<open>methodName\<close> and whose type is none of BODY, CONTEXT,
  REQUEST, RESPONSE; no parameter carries one of these four types.
\<close>

theorem argument_exclusion:
  "map name (Operation.parameters (operation meta routeDef)) =
     map RouteArgument.key
       (filter (\<lambda>a. RouteArgument.argFor a = methodName routeDef \<and>
                    RouteArgument.type a \<notin> {BODY, CONTEXT, REQUEST, RESPONSE})
          (args meta)) \<and>
   (\<forall>p \<in> set (Operation.parameters (operation meta routeDef)).
      in' p \<notin> {Label BODY, Label CONTEXT, Label REQUEST, Label RESPONSE})"
proof
  show "map name (Operation.parameters (operation meta routeDef)) =
     map RouteArgument.key
       (filter (\<lambda>a. RouteArgument.argFor a = methodName routeDef \<and>
                    RouteArgument.type a \<notin> {BODY, CONTEXT, REQUEST, RESPONSE})
          (args meta))"
    using map_name_parameters [of meta routeDef] by (simp add: retained_def)
next
  show "\<forall>p \<in> set (Operation.parameters (operation meta routeDef)).
      in' p \<notin> {Label BODY, Label CONTEXT, Label REQUEST, Label RESPONSE}"
  proof
    fix p
    assume "p \<in> set (Operation.parameters (operation meta routeDef))"
    then have "in' p \<in> set (map in' (Operation.parameters (operation meta routeDef)))"
      by simp
    then obtain a where "a \<in> set (retained meta routeDef)"
      and "in' p = (if RouteArgument.type a = PARAM then Literal ''path''
                    else Label (RouteArgument.type a))"
      unfolding map_in_parameters by auto
    then show "in' p \<notin> {Label BODY, Label CONTEXT, Label REQUEST, Label RESPONSE}"
      by (auto simp add: retained_def split: if_splits)
  qed
qed

text \<open>
  In the sample, the context argument of \<open>getUser\<close> and the body of \<open>createUser\<close> are
  left out, and the arguments of other routes with them.
\<close>

theorem argument_exclusion_witness:
  "map name (Operation.parameters (operation users getUser)) =
     [''id'', ''verbose'', ''x-trace''] \<and>
   map name (Operation.parameters (operation users createUser)) = [''x-tenant''] \<and>
   Label CONTEXT \<notin> in' ` set (Operation.parameters (operation users getUser)) \<and>
   Label BODY \<notin> in' ` set (Operation.parameters (operation users createUser))"
proof -
  have "map name (Operation.parameters (operation users getUser)) =
     [''id'', ''verbose'', ''x-trace'']"
    using argument_exclusion [of users getUser] by (simp add: users_def getUser_def)
  moreover have "map name (Operation.parameters (operation users createUser)) = [''x-tenant'']"
    using argument_exclusion [of users createUser] by (simp add: users_def createUser_def)
  moreover have "Label CONTEXT \<notin> in' ` set (Operation.parameters (operation users getUser))"
    using argument_exclusion [of users getUser] by force
  moreover have "Label BODY \<notin> in' ` set (Operation.parameters (operation users createUser))"
    using argument_exclusion [of users createUser] by force
  ultimately show ?thesis by simp
qed

text \<open>
  C3: the \<open>in\<close> of the parameter of a retained argument is the literal \<open>"path"\<close> when
  the argument's type is PARAM, and the argument's own type label otherwise.
\<close>

theorem param_relabelling:
  "map in' (Operation.parameters (operation meta routeDef)) =
     map (\<lambda>a. if RouteArgument.type a = PARAM then Literal ''path''
               else Label (RouteArgument.type a))
       (filter (\<lambda>a. RouteArgument.argFor a = methodName routeDef \<and>
                    RouteArgument.type a \<notin> {BODY, CONTEXT, REQUEST, RESPONSE})
          (args meta))"
  using map_in_parameters [of meta routeDef] by (simp add: retained_def)

text \<open>In the sample: a path parameter, then a query, then a header.\<close>

theorem param_relabelling_witness:
  "map in' (Operation.parameters (operation users getUser)) =
     [Literal ''path'', Label QUERY, Label HEADER]"
  using param_relabelling [of users getUser] by (simp add: users_def getUser_def)

text \<open>
  C4: the \<open>schema.type\<close> of the i-th parameter is the i-th entry of the route's
  \<open>argTypes\<close>; it is undefined from the end of that sequence on, and everywhere when
  the route has no \<open>argTypes\<close> entry. The operation is assembled in every case: no
  branch of the code raises.
\<close>

theorem schema_type_positional:
  "length (Operation.parameters (operation meta routeDef)) =
     length (filter (\<lambda>a. RouteArgument.argFor a = methodName routeDef \<and>
                    RouteArgument.type a \<notin> {BODY, CONTEXT, REQUEST, RESPONSE})
          (args meta)) \<and>
   (\<forall>i < length (Operation.parameters (operation meta routeDef)).
      Schema.type (schema (Operation.parameters (operation meta routeDef) ! i)) =
        (case argTypes meta (methodName routeDef) of
           None \<Rightarrow> None
         | Some tys \<Rightarrow> if i < length tys then Some (tys ! i) else None))"
  using length_parameters [of meta routeDef] nth_parameters [of _ meta routeDef]
  by (simp add: retained_def filteredArgTypes_def at_index_def split: option.split)

text \<open>
  In the sample, \<open>getUser\<close> has three parameters and two type labels, \<open>createUser\<close>
  one parameter and no entry.
\<close>

theorem schema_type_positional_witness:
  "length (Operation.parameters (operation users getUser)) = 3 \<and>
   Schema.type (schema (Operation.parameters (operation users getUser) ! 0)) = Some ''string'' \<and>
   Schema.type (schema (Operation.parameters (operation users getUser) ! 1)) = Some ''boolean'' \<and>
   Schema.type (schema (Operation.parameters (operation users getUser) ! 2)) = None \<and>
   length (Operation.parameters (operation users createUser)) = 1 \<and>
   Schema.type (schema (Operation.parameters (operation users createUser) ! 0)) = None"
proof -
  have g: "length (Operation.parameters (operation users getUser)) = 3"
    using schema_type_positional [of users getUser] by (simp add: users_def getUser_def)
  have c: "length (Operation.parameters (operation users createUser)) = 1"
    using schema_type_positional [of users createUser] by (simp add: users_def createUser_def)
  have tg: "argTypes users (methodName getUser) = Some [''string'', ''boolean'']"
    by (simp add: users_def getUser_def)
  have tc: "argTypes users (methodName createUser) = None"
    by (simp add: users_def createUser_def)
  from schema_type_positional [of users getUser] g tg
  have "Schema.type (schema (Operation.parameters (operation users getUser) ! 0)) = Some ''string''"
    and "Schema.type (schema (Operation.parameters (operation users getUser) ! 1)) = Some ''boolean''"
    and "Schema.type (schema (Operation.parameters (operation users getUser) ! 2)) = None"
    by simp_all
  moreover from schema_type_positional [of users createUser] c tc
  have "Schema.type (schema (Operation.parameters (operation users createUser) ! 0)) = None"
    by simp
  ultimately show ?thesis using g c by simp
qed

subsection \<open>The path table\<close>












subsection \<open>The alias of line 157\<close>








subsection \<open>The writes of a run\<close>





subsection \<open>Skipped controllers\<close>

lemma controllers_loop_append:
  "controllers_loop gm st (xs @ ys) = controllers_loop gm (controllers_loop gm st xs) ys"
  by (induction xs arbitrary: st) simp_all

lemma build_controllers_loop:
  "controllers_loop gm (Map.empty, LiteralObject) (controllers (appConfig this)) =
   controllers_loop gm (Map.empty, LiteralObject) (controllers (appConfig that)) \<Longrightarrow>
   title this = title that \<Longrightarrow> desc this = desc that \<Longrightarrow>
   applicationVersion this = applicationVersion that \<Longrightarrow>
   fst (build gm this path') = fst (build gm that path'')"
  by (simp add: build_def split: prod.split)

lemma controller_body_skip:
  "gm c = None \<or> (\<exists>meta. gm c = Some meta \<and> (prefix meta = None \<or> prefix meta = Some [])) \<Longrightarrow>
   controller_body gm st c = st"
  by (auto simp add: controller_body_def)


lemma build_skip:
  assumes "\<And>st. controller_body gm st c = st"
  shows "fst (build gm (this\<lparr>appConfig := \<lparr>controllers = before @ c # after\<rparr>\<rparr>) path') =
         fst (build gm (this\<lparr>appConfig := \<lparr>controllers = before @ after\<rparr>\<rparr>) path')"
  by (rule build_controllers_loop) (simp_all add: controllers_loop_append assms)


lemma header_configured:
  "title (foldl call b calls) = latest (title b) (titles calls) \<and>
   desc (foldl call b calls) = latest (desc b) (descs calls) \<and>
   applicationVersion (foldl call b calls) =
     latest (applicationVersion b) (applicationVersions calls) \<and>
   appConfig (foldl call b calls) = appConfig b"
proof (induction calls arbitrary: b)
  case Nil
  show ?case by simp
next
  case (Cons a calls)
  show ?case
    by (cases a)
       (simp_all add: Cons.IH addTitle_def addDesc_def addApplicationVersion_def)
qed

subsection \<open>The document\<close>



text \<open>
  C6: a controller whose metadata lookup gives nothing, or whose metadata has no prefix,
  leaves the loop's state as it is, and the document is the one built without it.
\<close>

theorem skip_without_prefix:
  assumes "getControllerOwnMeta c = None \<or>
           (\<exists>meta. getControllerOwnMeta c = Some meta \<and> prefix meta = None)"
  shows "controller_body getControllerOwnMeta st c = st \<and>
         fst (build getControllerOwnMeta
                (this\<lparr>appConfig := \<lparr>controllers = before @ c # after\<rparr>\<rparr>) path') =
         fst (build getControllerOwnMeta
                (this\<lparr>appConfig := \<lparr>controllers = before @ after\<rparr>\<rparr>) path')"
proof -
  from assms have "\<And>st. controller_body getControllerOwnMeta st c = st"
    by (auto intro: controller_body_skip)
  then show ?thesis by (simp add: build_skip)
qed

text \<open>
  In the sample, a class without metadata and a controller without prefix give an empty
  path table alone, and change nothing among other controllers.
\<close>

theorem skip_without_prefix_witness:
  "paths (fst (build sampleMeta (sampleBuilder [''NoPrefix'']) ''oas.json'')) = Map.empty \<and>
   paths (fst (build sampleMeta (sampleBuilder [''Service'']) ''oas.json'')) = Map.empty \<and>
   fst (build sampleMeta (sampleBuilder [''Users'', ''NoPrefix'', ''PingFirst'']) ''oas.json'') =
   fst (build sampleMeta (sampleBuilder [''Users'', ''PingFirst'']) ''oas.json'')"
proof -
  have n: "sampleMeta ''NoPrefix'' = None \<or>
      (\<exists>meta. sampleMeta ''NoPrefix'' = Some meta \<and> prefix meta = None)"
    by (simp add: sampleMeta_def noPrefix_def)
  have s: "sampleMeta ''Service'' = None \<or>
      (\<exists>meta. sampleMeta ''Service'' = Some meta \<and> prefix meta = None)"
    by (simp add: sampleMeta_def)
  have e: "paths (fst (build sampleMeta (sampleBuilder []) ''oas.json'')) = Map.empty"
    by (simp add: build_def sampleBuilder_def constructor_def)
  from n s e
    skip_without_prefix [where getControllerOwnMeta = sampleMeta and c = "''NoPrefix''"
        and this = "sampleBuilder []" and before = "[]" and after = "[]"
        and path' = "''oas.json''"]
    skip_without_prefix [where getControllerOwnMeta = sampleMeta and c = "''Service''"
        and this = "sampleBuilder []" and before = "[]" and after = "[]"
        and path' = "''oas.json''"]
    skip_without_prefix [where getControllerOwnMeta = sampleMeta and c = "''NoPrefix''"
        and this = "sampleBuilder []" and before = "[''Users'']" and after = "[''PingFirst'']"
        and path' = "''oas.json''"]
  show ?thesis by (simp add: sampleBuilder_def constructor_def)
qed





text \<open>
  C9: with no controllers the document has no paths and nine empty component maps; its
  \<open>openapi\<close> is \<open>3.0.0\<close>, and title, version and description are the values last set
  by the setters, or the defaults where a setter was never called.
\<close>

theorem empty_case:
  "fst (build getControllerOwnMeta (configured \<lparr>controllers = []\<rparr> calls) path') =
     \<lparr>openapi = ''3.0.0'',
      info =
        \<lparr>Info.title = latest ''OpenAPI Spec 3.0.0 compliant documentation'' (titles calls),
         version = latest ''1.0.0'' (applicationVersions calls),
         description = latest ''Autogenerated OAS documentation by Dactyl'' (descs calls)\<rparr>,
      paths = Map.empty,
      components =
        \<lparr>schemas = Map.empty, responses = Map.empty, parameters = Map.empty,
         examples = Map.empty, requestBodies = Map.empty, headers = Map.empty,
         securitySchemes = Map.empty, links = Map.empty, callbacks = Map.empty\<rparr>\<rparr>"
  by (simp add: build_def configured_def header_configured constructor_def emptyComponents_def
      OAS_VERSION_def APP_VERSION_def DEFAULT_TITLE_def DEFAULT_DESC_def)

text \<open>
  In the sample, the title set twice and the description once, the version never; then
  no setter called at all.
\<close>

theorem empty_case_witness:
  "info (fst (build sampleMeta
      (configured \<lparr>controllers = []\<rparr> [AddTitle ''Users'', AddDesc ''Draft'', AddTitle ''Users API''])
      ''oas.json'')) =
     \<lparr>Info.title = ''Users API'', version = ''1.0.0'', description = ''Draft''\<rparr> \<and>
   info (fst (build sampleMeta (configured \<lparr>controllers = []\<rparr> []) ''oas.json'')) =
     \<lparr>Info.title = ''OpenAPI Spec 3.0.0 compliant documentation'', version = ''1.0.0'',
      description = ''Autogenerated OAS documentation by Dactyl''\<rparr> \<and>
   paths (fst (build sampleMeta (configured \<lparr>controllers = []\<rparr> []) ''oas.json'')) = Map.empty"
  using empty_case [of sampleMeta "[AddTitle ''Users'', AddDesc ''Draft'', AddTitle ''Users API'']" "''oas.json''"]
    empty_case [of sampleMeta "[]" "''oas.json''"]
  by simp

text \<open>
  C10: a controller whose prefix is the empty string is skipped as one without prefix
  is: the loop's state is left as it is, and the document is the one built without it.
\<close>

theorem skip_empty_prefix:
  assumes "getControllerOwnMeta c = Some meta" and "prefix meta = Some ''''"
  shows "controller_body getControllerOwnMeta st c = st \<and>
         fst (build getControllerOwnMeta
                (this\<lparr>appConfig := \<lparr>controllers = before @ c # after\<rparr>\<rparr>) path') =
         fst (build getControllerOwnMeta
                (this\<lparr>appConfig := \<lparr>controllers = before @ after\<rparr>\<rparr>) path')"
proof -
  from assms have "\<And>st. controller_body getControllerOwnMeta st c = st"
    by (auto intro: controller_body_skip)
  then show ?thesis by (simp add: build_skip)
qed

text \<open>In the sample, the controller with the empty prefix contributes nothing.\<close>

theorem skip_empty_prefix_witness:
  "paths (fst (build sampleMeta (sampleBuilder [''EmptyPrefix'']) ''oas.json'')) = Map.empty \<and>
   fst (build sampleMeta (sampleBuilder [''EmptyPrefix'', ''Users'']) ''oas.json'') =
   fst (build sampleMeta (sampleBuilder [''Users'']) ''oas.json'')"
proof -
  have m: "sampleMeta ''EmptyPrefix'' = Some emptyPrefix"
    by (simp add: sampleMeta_def)
  have p: "prefix emptyPrefix = Some ''''"
    by (simp add: emptyPrefix_def)
  have e: "paths (fst (build sampleMeta (sampleBuilder []) ''oas.json'')) = Map.empty"
    by (simp add: build_def sampleBuilder_def constructor_def)
  from m p e
    skip_empty_prefix [where getControllerOwnMeta = sampleMeta and c = "''EmptyPrefix''" and meta = emptyPrefix
        and this = "sampleBuilder []" and before = "[]" and after = "[]"
        and path' = "''oas.json''"]
    skip_empty_prefix [where getControllerOwnMeta = sampleMeta and c = "''EmptyPrefix''" and meta = emptyPrefix
        and this = "sampleBuilder []" and before = "[]" and after = "[''Users'']"
        and path' = "''oas.json''"]
  show ?thesis by (simp add: sampleBuilder_def constructor_def)
qed

end
